theory Spec2Isabelle
  imports Main "HOL-Library.Sublist"
begin

section \<open>Python values, exceptions and the operations the handler applies to them\<close>

text \<open>
  The handler receives its event as a decoded JSON document, so the event and the value of
  its \<^verbatim>\<open>operation\<close> field may be any JSON value. A dict is an association list
  read with \<open>map_of\<close> (JSON object keys are strings). A float is kept as a mantissa and
  an exponent; the program never looks inside one.
\<close>

datatype pyval =
    PNone
  | PBool bool
  | PInt int
  | PFloat int int
  | PStr string
  | PList "pyval list"
  | PDict "(string \<times> pyval) list"

text \<open>
  What a \<^verbatim>\<open>raise\<close> carries. \<^verbatim>\<open>TypeError\<close> and \<^verbatim>\<open>KeyError\<close> are the errors
  of the interpreter's own operations (their message texts are not modelled).
  \<open>ProviderError\<close> is an instance of a subclass of \<^verbatim>\<open>Exception\<close> raised by a
  provider call, with its class name and message. \<open>NonException\<close> is an instance of a
  class that derives from \<^verbatim>\<open>BaseException\<close> and not from \<^verbatim>\<open>Exception\<close>
  (\<^verbatim>\<open>KeyboardInterrupt\<close>, \<^verbatim>\<open>SystemExit\<close>, \<^verbatim>\<open>GeneratorExit\<close>), with its
  class name and message.
\<close>

datatype exn =
    TypeError
  | KeyError
  | ProviderError string string
  | NonException string string

text \<open>\<^verbatim>\<open>isinstance(e, Exception)\<close>: what the clause \<^verbatim>\<open>except Exception\<close> tests.\<close>

fun is_Exception :: "exn \<Rightarrow> bool" where
  "is_Exception TypeError = True"
| "is_Exception KeyError = True"
| "is_Exception (ProviderError cls msg) = True"
| "is_Exception (NonException cls msg) = False"

text \<open>\<^verbatim>\<open>key in container\<close> for a \<^verbatim>\<open>str\<close> key: a key of a dict, an element of a
  list, a substring of a string; the other values are not iterable.\<close>

fun py_in :: "string \<Rightarrow> pyval \<Rightarrow> exn + bool" where
  "py_in k (PDict kvs) = Inr (map_of kvs k \<noteq> None)"
| "py_in k (PList xs) = Inr (PStr k \<in> set xs)"
| "py_in k (PStr s) = Inr (sublist k s)"
| "py_in k _ = Inl TypeError"

text \<open>\<^verbatim>\<open>container[key]\<close> for a \<^verbatim>\<open>str\<close> key: only a dict can be subscripted
  with a string.\<close>

fun py_getitem :: "pyval \<Rightarrow> string \<Rightarrow> exn + pyval" where
  "py_getitem (PDict kvs) k = (case map_of kvs k of None \<Rightarrow> Inl KeyError | Some v \<Rightarrow> Inr v)"
| "py_getitem _ k = Inl TypeError"

text \<open>\<^verbatim>\<open>len(x)\<close>.\<close>

fun py_len :: "pyval \<Rightarrow> exn + nat" where
  "py_len (PStr s) = Inr (length s)"
| "py_len (PList xs) = Inr (length xs)"
| "py_len (PDict kvs) = Inr (length (remdups (map fst kvs)))"
| "py_len _ = Inl TypeError"

text \<open>\<^verbatim>\<open>s + x\<close> for a \<^verbatim>\<open>str\<close> \<open>s\<close>: concatenation when \<open>x\<close> is a
  \<^verbatim>\<open>str\<close>, a \<^verbatim>\<open>TypeError\<close> otherwise.\<close>

fun py_str_add :: "string \<Rightarrow> pyval \<Rightarrow> exn + string" where
  "py_str_add s (PStr t) = Inr (s @ t)"
| "py_str_add s _ = Inl TypeError"

section \<open>The provider client, its calls and the state of an invocation\<close>

record ec2_filter =
  Name :: string
  Values :: "string list"

text \<open>The response of the listing query, in the shape the provider client documents, with
  the keys the program reads: \<^verbatim>\<open>Reservations\<close>, and in each reservation
  \<^verbatim>\<open>Instances\<close>, and in each instance \<^verbatim>\<open>InstanceId\<close>.\<close>

record ec2_instance =
  InstanceId :: string

record ec2_reservation =
  Instances :: "ec2_instance list"

record describe_instances_response =
  Reservations :: "ec2_reservation list"

text \<open>A call made on the provider client, with its keyword argument.\<close>

datatype ec2_call =
    DescribeInstances "ec2_filter list"
  | StartInstances pyval
  | StopInstances pyval

fun is_query :: "ec2_call \<Rightarrow> bool" where
  "is_query (DescribeInstances _) = True"
| "is_query _ = False"

fun is_bulk_action :: "ec2_call \<Rightarrow> bool" where
  "is_bulk_action (DescribeInstances _) = False"
| "is_bulk_action _ = True"

text \<open>
  The provider is outside the program: each of its three operations takes the provider's
  state \<open>'w\<close> and answers with a result or an exception, and a new state.
\<close>

record 'w ec2_client =
  describe_instances :: "ec2_filter list \<Rightarrow> 'w \<Rightarrow> (exn + describe_instances_response) \<times> 'w"
  start_instances :: "pyval \<Rightarrow> 'w \<Rightarrow> (exn + unit) \<times> 'w"
  stop_instances :: "pyval \<Rightarrow> 'w \<Rightarrow> (exn + unit) \<times> 'w"

text \<open>A printed line is the concatenation of its fragments: literal text, \<^verbatim>\<open>str(v)\<close>
  of a value, \<^verbatim>\<open>str(e)\<close> of an exception.\<close>

datatype fragment = Text string | StrOf pyval | StrOfExn exn

text \<open>What an invocation can change: the provider, the calls made on it so far, and the
  lines printed so far.\<close>

record 'w runtime =
  world :: 'w
  calls :: "ec2_call list"
  stdout :: "fragment list list"

type_synonym ('w, 'a) action = "'w runtime \<Rightarrow> (exn + 'a) \<times> 'w runtime"

definition return_val :: "'a \<Rightarrow> ('w, 'a) action" where
  "return_val x s = (Inr x, s)"

definition eval_expr :: "exn + 'a \<Rightarrow> ('w, 'a) action" where
  "eval_expr r s = (r, s)"

definition bind_action :: "('w, 'a) action \<Rightarrow> ('a \<Rightarrow> ('w, 'b) action) \<Rightarrow> ('w, 'b) action" where
  "bind_action m f s = (case m s of (Inl e, s') \<Rightarrow> (Inl e, s') | (Inr x, s') \<Rightarrow> f x s')"

text \<open>\<^verbatim>\<open>try: body  except Exception as error: handler\<close>. The clause matches the
  instances of \<^verbatim>\<open>Exception\<close>; anything else the body raises goes on to the caller.\<close>

definition try_except_Exception ::
    "('w, 'a) action \<Rightarrow> (exn \<Rightarrow> ('w, 'a) action) \<Rightarrow> ('w, 'a) action" where
  "try_except_Exception body handler s =
     (case body s of
        (Inl error, s') \<Rightarrow> if is_Exception error then handler error s' else (Inl error, s')
      | (Inr x, s') \<Rightarrow> (Inr x, s'))"

definition py_print :: "fragment list \<Rightarrow> ('w, unit) action" where
  "py_print line s = (Inr (), s\<lparr>stdout := stdout s @ [line]\<rparr>)"

definition call_describe_instances ::
    "'w ec2_client \<Rightarrow> ec2_filter list \<Rightarrow> ('w, describe_instances_response) action" where
  "call_describe_instances ec2 Filters s =
     (case describe_instances ec2 Filters (world s) of
        (r, w) \<Rightarrow> (r, s\<lparr>world := w, calls := calls s @ [DescribeInstances Filters]\<rparr>))"

definition call_start_instances :: "'w ec2_client \<Rightarrow> pyval \<Rightarrow> ('w, unit) action" where
  "call_start_instances ec2 InstanceIds s =
     (case start_instances ec2 InstanceIds (world s) of
        (r, w) \<Rightarrow> (r, s\<lparr>world := w, calls := calls s @ [StartInstances InstanceIds]\<rparr>))"

definition call_stop_instances :: "'w ec2_client \<Rightarrow> pyval \<Rightarrow> ('w, unit) action" where
  "call_stop_instances ec2 InstanceIds s =
     (case stop_instances ec2 InstanceIds (world s) of
        (r, w) \<Rightarrow> (r, s\<lparr>world := w, calls := calls s @ [StopInstances InstanceIds]\<rparr>))"

section \<open>\<^verbatim>\<open>get_list_of_servers_with_tag\<close>\<close>

text \<open>The inner loop: \<^verbatim>\<open>for ec2count in server['Instances']: server_ids.append(ec2count['InstanceId'])\<close>.\<close>

fun append_instance_ids :: "ec2_instance list \<Rightarrow> pyval list \<Rightarrow> pyval list" where
  "append_instance_ids [] server_ids = server_ids"
| "append_instance_ids (ec2count # rest) server_ids =
     append_instance_ids rest (server_ids @ [PStr (InstanceId ec2count)])"

text \<open>The outer loop: \<^verbatim>\<open>for server in response['Reservations']\<close>.\<close>

fun append_reservation_ids :: "ec2_reservation list \<Rightarrow> pyval list \<Rightarrow> pyval list" where
  "append_reservation_ids [] server_ids = server_ids"
| "append_reservation_ids (server # rest) server_ids =
     append_reservation_ids rest (append_instance_ids (Instances server) server_ids)"

text \<open>The function from the query on, once \<open>instance_state_values\<close> is set.\<close>

definition query_server_ids ::
    "'w ec2_client \<Rightarrow> string \<Rightarrow> string \<Rightarrow> string list \<Rightarrow> ('w, pyval) action" where
  "query_server_ids ec2 EC2TAG_KEY EC2TAG_VALUE instance_state_values =
     bind_action
       (call_describe_instances ec2
          [\<lparr>Name = ''tag:'' @ EC2TAG_KEY, Values = [EC2TAG_VALUE]\<rparr>,
           \<lparr>Name = ''instance-state-name'', Values = instance_state_values\<rparr>])
       (\<lambda>response.
          return_val (PList
            (if length (Reservations response) > 0
             then append_reservation_ids (Reservations response) []
             else [])))"

definition get_list_of_servers_with_tag ::
    "'w ec2_client \<Rightarrow> string \<Rightarrow> string \<Rightarrow> pyval \<Rightarrow> ('w, pyval) action" where
  "get_list_of_servers_with_tag ec2 EC2TAG_KEY EC2TAG_VALUE EC2_ACTION =
     (if EC2_ACTION = PStr ''stop'' then
        query_server_ids ec2 EC2TAG_KEY EC2TAG_VALUE [''running'']
      else if EC2_ACTION = PStr ''start'' then
        query_server_ids ec2 EC2TAG_KEY EC2TAG_VALUE [''stopped'']
      else return_val (PStr ''Invalid Operation''))"

section \<open>\<^verbatim>\<open>lambda_handler\<close>\<close>

text \<open>The body of the \<^verbatim>\<open>try\<close> block. The module's globals (the client and the two
  configured strings) are parameters. \<^verbatim>\<open>event['operation']\<close> is evaluated at each
  place the source evaluates it.\<close>

definition lambda_handler_try ::
    "'w ec2_client \<Rightarrow> string \<Rightarrow> string \<Rightarrow> pyval \<Rightarrow> ('w, unit) action" where
  "lambda_handler_try ec2 EC2TAG_KEY EC2TAG_VALUE event =
     bind_action (eval_expr (py_in ''operation'' event)) (\<lambda>present.
     if present then
       bind_action (eval_expr (py_getitem event ''operation'')) (\<lambda>operation.
       bind_action (get_list_of_servers_with_tag ec2 EC2TAG_KEY EC2TAG_VALUE operation) (\<lambda>server_ids.
       bind_action (eval_expr (py_len server_ids)) (\<lambda>n.
       if n > 0 then
         bind_action (eval_expr (py_getitem event ''operation'')) (\<lambda>operation.
         if operation = PStr ''start'' then
           bind_action (eval_expr (py_getitem event ''operation'')) (\<lambda>operation.
           bind_action (eval_expr (py_str_add ''Servers to '' operation)) (\<lambda>msg.
           bind_action (py_print [Text (msg @ '': ''), StrOf server_ids]) (\<lambda>_.
           call_start_instances ec2 server_ids)))
         else
           bind_action (eval_expr (py_getitem event ''operation'')) (\<lambda>operation.
           if operation = PStr ''stop'' then
             bind_action (eval_expr (py_getitem event ''operation'')) (\<lambda>operation.
             bind_action (eval_expr (py_str_add ''Servers to '' operation)) (\<lambda>msg.
             bind_action (py_print [Text (msg @ '': ''), StrOf server_ids]) (\<lambda>_.
             call_stop_instances ec2 server_ids)))
           else py_print [Text ''Invalid Operation!'']))
       else
         bind_action (eval_expr (py_getitem event ''operation'')) (\<lambda>operation.
         bind_action (eval_expr (py_str_add ''No Servers to '' operation)) (\<lambda>msg.
         py_print [Text msg])))))
     else py_print [Text ''No operation detected!''])"

definition lambda_handler ::
    "'w ec2_client \<Rightarrow> string \<Rightarrow> string \<Rightarrow> pyval \<Rightarrow> 'c \<Rightarrow> ('w, pyval) action" where
  "lambda_handler ec2 EC2TAG_KEY EC2TAG_VALUE event context =
     bind_action
       (try_except_Exception (lambda_handler_try ec2 EC2TAG_KEY EC2TAG_VALUE event)
          (\<lambda>error. py_print [Text ''Error occuried! Error Message: '', StrOfExn error]))
       (\<lambda>_. return_val (PStr ''Function Executed!''))"

section \<open>The words of the specification\<close>

text \<open>
  The identifiers of a response, as the specification counts them: every instance of every
  reservation, reservations in the order of the response and, within a reservation,
  instances in the order listed, repetitions kept.
\<close>

definition ids_in_response_order :: "describe_instances_response \<Rightarrow> string list" where
  "ids_in_response_order response =
     concat (map (\<lambda>server. map InstanceId (Instances server)) (Reservations response))"

text \<open>
  The two filters of the listing query: the configured tag and one instance state.
\<close>

definition tag_state_filters :: "string \<Rightarrow> string \<Rightarrow> string \<Rightarrow> ec2_filter list" where
  "tag_state_filters key val st =
     [\<lparr>Name = ''tag:'' @ key, Values = [val]\<rparr>,
      \<lparr>Name = ''instance-state-name'', Values = [st]\<rparr>]"

section \<open>Example providers and an initial state\<close>

text \<open>
  A response with three reservations, one of them empty, whose identifiers are neither
  sorted nor distinct; a provider that answers every query with it and counts the calls it
  serves; one that finds nothing; one whose query fails with an instance of
  \<^verbatim>\<open>Exception\<close>; one whose query is interrupted.
\<close>

definition example_response :: describe_instances_response where
  "example_response =
     \<lparr>Reservations =
        [\<lparr>Instances = [\<lparr>InstanceId = ''i-2''\<rparr>, \<lparr>InstanceId = ''i-1''\<rparr>]\<rparr>,
         \<lparr>Instances = []\<rparr>,
         \<lparr>Instances = [\<lparr>InstanceId = ''i-2''\<rparr>]\<rparr>]\<rparr>"

definition example_ec2 :: "nat ec2_client" where
  "example_ec2 =
     \<lparr>describe_instances = (\<lambda>Filters w. (Inr example_response, Suc w)),
      start_instances = (\<lambda>InstanceIds w. (Inr (), Suc w)),
      stop_instances = (\<lambda>InstanceIds w. (Inr (), Suc w))\<rparr>"

definition empty_ec2 :: "nat ec2_client" where
  "empty_ec2 =
     \<lparr>describe_instances = (\<lambda>Filters w. (Inr \<lparr>Reservations = []\<rparr>, Suc w)),
      start_instances = (\<lambda>InstanceIds w. (Inr (), Suc w)),
      stop_instances = (\<lambda>InstanceIds w. (Inr (), Suc w))\<rparr>"

definition failing_ec2 :: "nat ec2_client" where
  "failing_ec2 =
     \<lparr>describe_instances =
        (\<lambda>Filters w. (Inl (ProviderError ''ClientError'' ''RequestExpired''), Suc w)),
      start_instances = (\<lambda>InstanceIds w. (Inr (), Suc w)),
      stop_instances = (\<lambda>InstanceIds w. (Inr (), Suc w))\<rparr>"

definition interrupted_ec2 :: "nat ec2_client" where
  "interrupted_ec2 =
     \<lparr>describe_instances =
        (\<lambda>Filters w. (Inl (NonException ''KeyboardInterrupt'' []), Suc w)),
      start_instances = (\<lambda>InstanceIds w. (Inr (), Suc w)),
      stop_instances = (\<lambda>InstanceIds w. (Inr (), Suc w))\<rparr>"

definition initial :: "nat runtime" where
  "initial = \<lparr>world = 0, calls = [], stdout = []\<rparr>"

section \<open>The two loops and the query\<close>

lemma append_instance_ids_eq:
  "append_instance_ids xs acc = acc @ map (\<lambda>i. PStr (InstanceId i)) xs"
  by (induction xs arbitrary: acc) simp_all

lemma append_reservation_ids_eq:
  "append_reservation_ids rs acc =
     acc @ map PStr (concat (map (\<lambda>server. map InstanceId (Instances server)) rs))"
  by (induction rs arbitrary: acc) (simp_all add: append_instance_ids_eq comp_def)

lemma collected_ids_eq:
  "(if length (Reservations response) > 0
    then append_reservation_ids (Reservations response) [] else [])
   = map PStr (ids_in_response_order response)"
  by (simp add: append_reservation_ids_eq ids_in_response_order_def)

lemma query_server_ids_eq:
  "query_server_ids ec2 k v [st] s =
     (case describe_instances ec2 (tag_state_filters k v st) (world s) of
        (Inl e, w) \<Rightarrow>
          (Inl e, s\<lparr>world := w, calls := calls s @ [DescribeInstances (tag_state_filters k v st)]\<rparr>)
      | (Inr response, w) \<Rightarrow>
          (Inr (PList (map PStr (ids_in_response_order response))),
           s\<lparr>world := w, calls := calls s @ [DescribeInstances (tag_state_filters k v st)]\<rparr>))"
  unfolding query_server_ids_def collected_ids_eq
  by (simp add: bind_action_def call_describe_instances_def return_val_def tag_state_filters_def
      split: prod.splits sum.splits)

section \<open>The \<^verbatim>\<open>try\<close> block, case by case\<close>

lemma try_stop:
  assumes "map_of kvs ''operation'' = Some (PStr ''stop'')"
  shows "lambda_handler_try ec2 k v (PDict kvs) s =
     (case describe_instances ec2 (tag_state_filters k v ''running'') (world s) of
        (Inl e, w) \<Rightarrow>
          (Inl e, s\<lparr>world := w, calls := calls s @ [DescribeInstances (tag_state_filters k v ''running'')]\<rparr>)
      | (Inr response, w) \<Rightarrow>
          (if ids_in_response_order response = [] then
             (Inr (), s\<lparr>world := w,
                        calls := calls s @ [DescribeInstances (tag_state_filters k v ''running'')],
                        stdout := stdout s @ [[Text ''No Servers to stop'']]\<rparr>)
           else
             (case stop_instances ec2 (PList (map PStr (ids_in_response_order response))) w of
                (r, w') \<Rightarrow>
                  (r, s\<lparr>world := w',
                       calls := calls s @ [DescribeInstances (tag_state_filters k v ''running''),
                                  StopInstances (PList (map PStr (ids_in_response_order response)))],
                       stdout := stdout s @ [[Text ''Servers to stop: '',
                                  StrOf (PList (map PStr (ids_in_response_order response)))]]\<rparr>))))"
  using assms
  unfolding lambda_handler_try_def get_list_of_servers_with_tag_def
  by (simp add: query_server_ids_eq bind_action_def eval_expr_def py_print_def
      call_stop_instances_def split: prod.splits sum.splits)

lemma try_start:
  assumes "map_of kvs ''operation'' = Some (PStr ''start'')"
  shows "lambda_handler_try ec2 k v (PDict kvs) s =
     (case describe_instances ec2 (tag_state_filters k v ''stopped'') (world s) of
        (Inl e, w) \<Rightarrow>
          (Inl e, s\<lparr>world := w, calls := calls s @ [DescribeInstances (tag_state_filters k v ''stopped'')]\<rparr>)
      | (Inr response, w) \<Rightarrow>
          (if ids_in_response_order response = [] then
             (Inr (), s\<lparr>world := w,
                        calls := calls s @ [DescribeInstances (tag_state_filters k v ''stopped'')],
                        stdout := stdout s @ [[Text ''No Servers to start'']]\<rparr>)
           else
             (case start_instances ec2 (PList (map PStr (ids_in_response_order response))) w of
                (r, w') \<Rightarrow>
                  (r, s\<lparr>world := w',
                       calls := calls s @ [DescribeInstances (tag_state_filters k v ''stopped''),
                                  StartInstances (PList (map PStr (ids_in_response_order response)))],
                       stdout := stdout s @ [[Text ''Servers to start: '',
                                  StrOf (PList (map PStr (ids_in_response_order response)))]]\<rparr>))))"
  using assms
  unfolding lambda_handler_try_def get_list_of_servers_with_tag_def
  by (simp add: query_server_ids_eq bind_action_def eval_expr_def py_print_def
      call_start_instances_def split: prod.splits sum.splits)

lemma resolver_invalid:
  assumes "operation \<noteq> PStr ''start''" and "operation \<noteq> PStr ''stop''"
  shows "get_list_of_servers_with_tag ec2 k v operation s = (Inr (PStr ''Invalid Operation''), s)"
  using assms by (simp add: get_list_of_servers_with_tag_def return_val_def)

lemma try_invalid:
  assumes "map_of kvs ''operation'' = Some operation"
    and "operation \<noteq> PStr ''start''" and "operation \<noteq> PStr ''stop''"
  shows "lambda_handler_try ec2 k v (PDict kvs) s =
     (Inr (), s\<lparr>stdout := stdout s @ [[Text ''Invalid Operation!'']]\<rparr>)"
  using assms
  by (simp add: lambda_handler_try_def resolver_invalid bind_action_def eval_expr_def
      py_print_def)

lemma try_absent:
  assumes "map_of kvs ''operation'' = None"
  shows "lambda_handler_try ec2 k v (PDict kvs) s =
     (Inr (), s\<lparr>stdout := stdout s @ [[Text ''No operation detected!'']]\<rparr>)"
  using assms
  by (simp add: lambda_handler_try_def bind_action_def eval_expr_def py_print_def)

lemma try_not_dict:
  assumes "\<And>kvs. event \<noteq> PDict kvs"
  shows "calls (snd (lambda_handler_try ec2 k v event s)) = calls s
       \<and> world (snd (lambda_handler_try ec2 k v event s)) = world s"
  using assms
  by (cases event)
     (auto simp add: lambda_handler_try_def bind_action_def eval_expr_def py_print_def)

text \<open>
  The handler is its \<^verbatim>\<open>try\<close> block, followed by the report of the exception when
  the block raised an instance of \<^verbatim>\<open>Exception\<close>, followed by the fixed return value;
  what the block raised outside \<^verbatim>\<open>Exception\<close> leaves the handler as it is.
\<close>

lemma handler_eq:
  "lambda_handler ec2 k v event context s =
     (case lambda_handler_try ec2 k v event s of
        (Inl error, s') \<Rightarrow>
          if is_Exception error then
            (Inr (PStr ''Function Executed!''),
             s'\<lparr>stdout := stdout s' @ [[Text ''Error occuried! Error Message: '', StrOfExn error]]\<rparr>)
          else (Inl error, s')
      | (Inr u, s') \<Rightarrow> (Inr (PStr ''Function Executed!''), s'))"
  by (simp add: lambda_handler_def bind_action_def try_except_Exception_def py_print_def
      return_val_def split: prod.splits sum.splits)

lemma handler_calls:
  "calls (snd (lambda_handler ec2 k v event context s)) =
     calls (snd (lambda_handler_try ec2 k v event s))"
  by (simp add: handler_eq split: prod.splits sum.splits)

lemma handler_world:
  "world (snd (lambda_handler ec2 k v event context s)) =
     world (snd (lambda_handler_try ec2 k v event s))"
  by (simp add: handler_eq split: prod.splits sum.splits)

text \<open>
  The calls an invocation adds, for any event and any provider: none, the query alone, or
  the query followed by one bulk action on the identifiers of its response.
\<close>

lemma try_new_calls:
  fixes ec2 :: "'w ec2_client"
  defines "ids \<equiv> \<lambda>response. PList (map PStr (ids_in_response_order response))"
  obtains
    (no_call) "calls (snd (lambda_handler_try ec2 k v event s)) = calls s"
  | (query_only) st where
      "calls (snd (lambda_handler_try ec2 k v event s)) =
         calls s @ [DescribeInstances (tag_state_filters k v st)]"
  | (stop) response w where
      "describe_instances ec2 (tag_state_filters k v ''running'') (world s) = (Inr response, w)"
      "calls (snd (lambda_handler_try ec2 k v event s)) =
         calls s @ [DescribeInstances (tag_state_filters k v ''running''),
                    StopInstances (ids response)]"
  | (start) response w where
      "describe_instances ec2 (tag_state_filters k v ''stopped'') (world s) = (Inr response, w)"
      "calls (snd (lambda_handler_try ec2 k v event s)) =
         calls s @ [DescribeInstances (tag_state_filters k v ''stopped''),
                    StartInstances (ids response)]"
proof (cases "\<exists>kvs. event = PDict kvs")
  case False
  then have "calls (snd (lambda_handler_try ec2 k v event s)) = calls s"
    using try_not_dict [of event ec2 k v s] by blast
  then show ?thesis by (rule no_call)
next
  case True
  then obtain kvs where ev: "event = PDict kvs" by blast
  show ?thesis
  proof (cases "map_of kvs ''operation''")
    case None
    then show ?thesis using no_call by (simp add: ev try_absent)
  next
    case (Some operation)
    consider (a) "operation = PStr ''stop''" | (b) "operation = PStr ''start''"
      | (c) "operation \<noteq> PStr ''start''" "operation \<noteq> PStr ''stop''" by blast
    then show ?thesis
    proof cases
      case a
      obtain r w where d: "describe_instances ec2 (tag_state_filters k v ''running'') (world s) = (r, w)"
        by (cases "describe_instances ec2 (tag_state_filters k v ''running'') (world s)")
      show ?thesis
      proof (cases r)
        case (Inl e)
        then show ?thesis
          using query_only [of "''running''"] Some a d by (simp add: ev try_stop)
      next
        case (Inr response)
        show ?thesis
        proof (cases "ids_in_response_order response = []")
          case True
          then show ?thesis
            using query_only [of "''running''"] Some a d Inr by (simp add: ev try_stop)
        next
          case False
          then show ?thesis
            using stop [of response w] Some a d Inr
            by (simp add: ev try_stop ids_def split: prod.splits)
        qed
      qed
    next
      case b
      obtain r w where d: "describe_instances ec2 (tag_state_filters k v ''stopped'') (world s) = (r, w)"
        by (cases "describe_instances ec2 (tag_state_filters k v ''stopped'') (world s)")
      show ?thesis
      proof (cases r)
        case (Inl e)
        then show ?thesis
          using query_only [of "''stopped''"] Some b d by (simp add: ev try_start)
      next
        case (Inr response)
        show ?thesis
        proof (cases "ids_in_response_order response = []")
          case True
          then show ?thesis
            using query_only [of "''stopped''"] Some b d Inr by (simp add: ev try_start)
        next
          case False
          then show ?thesis
            using start [of response w] Some b d Inr
            by (simp add: ev try_start ids_def split: prod.splits)
        qed
      qed
    next
      case c
      then show ?thesis using no_call Some by (simp add: ev try_invalid)
    qed
  qed
qed


lemmas example_defs =
  example_response_def example_ec2_def empty_ec2_def failing_ec2_def interrupted_ec2_def
  initial_def
  ids_in_response_order_def tag_state_filters_def

section \<open>Properties of the handler\<close>

text \<open>
  C1. When the event's \<^verbatim>\<open>operation\<close> field is \<^verbatim>\<open>"stop"\<close>, the handler's first
  call is the listing query with exactly two filters, the configured tag key and value and
  \<^verbatim>\<open>instance-state-name\<close> \<^verbatim>\<open>running\<close>. When the query answers with a
  response that holds identifiers, the only other call is one bulk stop, on exactly the
  identifiers of that response; when the query fails or finds none, there is no other call.
\<close>

theorem stop_queries_running_and_stops_listed:
  assumes "map_of kvs ''operation'' = Some (PStr ''stop'')"
  shows "calls (snd (lambda_handler ec2 EC2TAG_KEY EC2TAG_VALUE (PDict kvs) context s)) =
     calls s
     @ [DescribeInstances
          [\<lparr>Name = ''tag:'' @ EC2TAG_KEY, Values = [EC2TAG_VALUE]\<rparr>,
           \<lparr>Name = ''instance-state-name'', Values = [''running'']\<rparr>]]
     @ (case fst (describe_instances ec2
                    [\<lparr>Name = ''tag:'' @ EC2TAG_KEY, Values = [EC2TAG_VALUE]\<rparr>,
                     \<lparr>Name = ''instance-state-name'', Values = [''running'']\<rparr>] (world s)) of
          Inl e \<Rightarrow> []
        | Inr response \<Rightarrow>
            if ids_in_response_order response = [] then []
            else [StopInstances (PList (map PStr (ids_in_response_order response)))])"
  unfolding handler_calls try_stop [OF assms]
  by (simp add: tag_state_filters_def split: prod.splits sum.splits)

theorem stop_queries_running_and_stops_listed_witness:
  "map_of [(''source'', PStr ''aws.events''), (''operation'', PStr ''stop'')] ''operation''
     = Some (PStr ''stop'')
   \<and> calls (snd (lambda_handler example_ec2 ''Environment'' ''dev''
         (PDict [(''source'', PStr ''aws.events''), (''operation'', PStr ''stop'')]) () initial)) =
     [DescribeInstances
        [\<lparr>Name = ''tag:Environment'', Values = [''dev'']\<rparr>,
         \<lparr>Name = ''instance-state-name'', Values = [''running'']\<rparr>],
      StopInstances (PList [PStr ''i-2'', PStr ''i-1'', PStr ''i-2''])]"
  using stop_queries_running_and_stops_listed
    [of "[(''source'', PStr ''aws.events''), (''operation'', PStr ''stop'')]"
        example_ec2 "''Environment''" "''dev''" "()" initial]
  by (simp add: example_defs)

text \<open>
  C2. When the event's \<^verbatim>\<open>operation\<close> field is \<^verbatim>\<open>"start"\<close>, the handler's first
  call is the listing query with the configured tag filter and \<^verbatim>\<open>instance-state-name\<close>
  \<^verbatim>\<open>stopped\<close>, and the bulk start that follows is on exactly the identifiers of the
  query's response.
\<close>

theorem start_queries_stopped_and_starts_listed:
  assumes "map_of kvs ''operation'' = Some (PStr ''start'')"
  shows "calls (snd (lambda_handler ec2 EC2TAG_KEY EC2TAG_VALUE (PDict kvs) context s)) =
     calls s
     @ [DescribeInstances
          [\<lparr>Name = ''tag:'' @ EC2TAG_KEY, Values = [EC2TAG_VALUE]\<rparr>,
           \<lparr>Name = ''instance-state-name'', Values = [''stopped'']\<rparr>]]
     @ (case fst (describe_instances ec2
                    [\<lparr>Name = ''tag:'' @ EC2TAG_KEY, Values = [EC2TAG_VALUE]\<rparr>,
                     \<lparr>Name = ''instance-state-name'', Values = [''stopped'']\<rparr>] (world s)) of
          Inl e \<Rightarrow> []
        | Inr response \<Rightarrow>
            if ids_in_response_order response = [] then []
            else [StartInstances (PList (map PStr (ids_in_response_order response)))])"
  unfolding handler_calls try_start [OF assms]
  by (simp add: tag_state_filters_def split: prod.splits sum.splits)

theorem start_queries_stopped_and_starts_listed_witness:
  "map_of [(''operation'', PStr ''start'')] ''operation'' = Some (PStr ''start'')
   \<and> calls (snd (lambda_handler example_ec2 ''Environment'' ''dev''
         (PDict [(''operation'', PStr ''start'')]) () initial)) =
     [DescribeInstances
        [\<lparr>Name = ''tag:Environment'', Values = [''dev'']\<rparr>,
         \<lparr>Name = ''instance-state-name'', Values = [''stopped'']\<rparr>],
      StartInstances (PList [PStr ''i-2'', PStr ''i-1'', PStr ''i-2''])]"
  using start_queries_stopped_and_starts_listed
    [of "[(''operation'', PStr ''start'')]" example_ec2 "''Environment''" "''dev''" "()" initial]
  by (simp add: example_defs)




text \<open>
  C4. When the event has an \<^verbatim>\<open>operation\<close> field whose value is neither
  \<^verbatim>\<open>"start"\<close> nor \<^verbatim>\<open>"stop"\<close> (a string or any other value), the resolver makes no
  call, and the whole invocation makes no call on the provider and leaves it as it was.
\<close>

theorem invalid_operation_makes_no_call:
  assumes "map_of kvs ''operation'' = Some operation"
    and "operation \<noteq> PStr ''start''" and "operation \<noteq> PStr ''stop''"
  shows "calls (snd (get_list_of_servers_with_tag ec2 EC2TAG_KEY EC2TAG_VALUE operation s)) = calls s
    \<and> calls (snd (lambda_handler ec2 EC2TAG_KEY EC2TAG_VALUE (PDict kvs) context s)) = calls s
    \<and> world (snd (lambda_handler ec2 EC2TAG_KEY EC2TAG_VALUE (PDict kvs) context s)) = world s"
  using assms by (simp add: resolver_invalid handler_calls handler_world try_invalid)

theorem invalid_operation_makes_no_call_witness:
  "map_of [(''operation'', PStr ''reboot'')] ''operation'' = Some (PStr ''reboot'')
   \<and> PStr ''reboot'' \<noteq> PStr ''start'' \<and> PStr ''reboot'' \<noteq> PStr ''stop''
   \<and> calls (snd (get_list_of_servers_with_tag example_ec2 ''Environment'' ''dev''
         (PStr ''reboot'') initial)) = calls initial
   \<and> calls (snd (lambda_handler example_ec2 ''Environment'' ''dev''
         (PDict [(''operation'', PStr ''reboot'')]) () initial)) = calls initial
   \<and> world (snd (lambda_handler example_ec2 ''Environment'' ''dev''
         (PDict [(''operation'', PStr ''reboot'')]) () initial)) = world initial"
  using invalid_operation_makes_no_call
    [of "[(''operation'', PStr ''reboot'')]" "PStr ''reboot''" example_ec2
        "''Environment''" "''dev''" initial "()"]
  by simp

text \<open>
  C5. When the event has no \<^verbatim>\<open>operation\<close> key, the invocation prints
  \<^verbatim>\<open>No operation detected!\<close> and does nothing else: no call on the provider, whose state
  is unchanged.
\<close>

theorem missing_operation_makes_no_call:
  assumes "map_of kvs ''operation'' = None"
  shows "lambda_handler ec2 EC2TAG_KEY EC2TAG_VALUE (PDict kvs) context s =
      (Inr (PStr ''Function Executed!''),
       s\<lparr>stdout := stdout s @ [[Text ''No operation detected!'']]\<rparr>)
    \<and> calls (snd (lambda_handler ec2 EC2TAG_KEY EC2TAG_VALUE (PDict kvs) context s)) = calls s
    \<and> world (snd (lambda_handler ec2 EC2TAG_KEY EC2TAG_VALUE (PDict kvs) context s)) = world s"
  using assms by (simp add: handler_eq try_absent)

theorem missing_operation_makes_no_call_witness:
  "map_of [(''Operation'', PStr ''stop'')] ''operation'' = None
   \<and> lambda_handler example_ec2 ''Environment'' ''dev'' (PDict [(''Operation'', PStr ''stop'')])
        () initial =
      (Inr (PStr ''Function Executed!''),
       \<lparr>world = 0, calls = [], stdout = [[Text ''No operation detected!'']]\<rparr>)"
  using missing_operation_makes_no_call
    [of "[(''Operation'', PStr ''stop'')]" example_ec2 "''Environment''" "''dev''" "()" initial]
  by (simp add: initial_def)

text \<open>
  C6. When the resolver returns the empty list, the handler prints
  \<^verbatim>\<open>No Servers to\<close> followed by the operation and makes no bulk start or stop call:
  the state it ends in is the state the resolver left, with that one line added.
\<close>

theorem no_servers_no_bulk_action:
  assumes "py_getitem event ''operation'' = Inr operation"
    and "get_list_of_servers_with_tag ec2 EC2TAG_KEY EC2TAG_VALUE operation s = (Inr (PList []), s1)"
  shows "(\<exists>name. operation = PStr name
            \<and> lambda_handler ec2 EC2TAG_KEY EC2TAG_VALUE event context s =
                (Inr (PStr ''Function Executed!''),
                 s1\<lparr>stdout := stdout s1 @ [[Text (''No Servers to '' @ name)]]\<rparr>))
    \<and> filter is_bulk_action (calls (snd (lambda_handler ec2 EC2TAG_KEY EC2TAG_VALUE event context s)))
        = filter is_bulk_action (calls s)"
proof -
  from assms(1) obtain kvs where ev: "event = PDict kvs"
    by (cases event) simp_all
  with assms(1) have field: "map_of kvs ''operation'' = Some operation"
    by (simp split: option.splits)
  from assms(2) have op: "operation = PStr ''stop'' \<or> operation = PStr ''start''"
    by (auto simp add: get_list_of_servers_with_tag_def return_val_def split: if_splits)
  then obtain st where q: "query_server_ids ec2 EC2TAG_KEY EC2TAG_VALUE [st] s = (Inr (PList []), s1)"
    using assms(2) by (auto simp add: get_list_of_servers_with_tag_def)
  then have c: "calls s1 = calls s @ [DescribeInstances (tag_state_filters EC2TAG_KEY EC2TAG_VALUE st)]"
    by (auto simp add: query_server_ids_eq split: prod.splits sum.splits)
  have t: "lambda_handler_try ec2 EC2TAG_KEY EC2TAG_VALUE event s =
      (Inr (), s1\<lparr>stdout := stdout s1 @ [[Text (''No Servers to '' @ (case operation of PStr n \<Rightarrow> n))]]\<rparr>)"
    using op field assms(2)
    by (auto simp add: ev lambda_handler_try_def bind_action_def eval_expr_def py_print_def)
  show ?thesis
    using op t c by (auto simp add: handler_eq)
qed

theorem no_servers_no_bulk_action_witness:
  "py_getitem (PDict [(''operation'', PStr ''start'')]) ''operation'' = Inr (PStr ''start'')
   \<and> get_list_of_servers_with_tag empty_ec2 ''Environment'' ''dev'' (PStr ''start'') initial =
       (Inr (PList []),
        \<lparr>world = 1,
         calls = [DescribeInstances
                    [\<lparr>Name = ''tag:Environment'', Values = [''dev'']\<rparr>,
                     \<lparr>Name = ''instance-state-name'', Values = [''stopped'']\<rparr>]],
         stdout = []\<rparr>)
   \<and> lambda_handler empty_ec2 ''Environment'' ''dev'' (PDict [(''operation'', PStr ''start'')])
        () initial =
       (Inr (PStr ''Function Executed!''),
        \<lparr>world = 1,
         calls = [DescribeInstances
                    [\<lparr>Name = ''tag:Environment'', Values = [''dev'']\<rparr>,
                     \<lparr>Name = ''instance-state-name'', Values = [''stopped'']\<rparr>]],
         stdout = [[Text ''No Servers to start'']]\<rparr>)"
proof -
  let ?s1 = "\<lparr>world = 1::nat,
         calls = [DescribeInstances
                    [\<lparr>Name = ''tag:Environment'', Values = [''dev'']\<rparr>,
                     \<lparr>Name = ''instance-state-name'', Values = [''stopped'']\<rparr>]],
         stdout = []\<rparr>"
  have g: "py_getitem (PDict [(''operation'', PStr ''start'')]) ''operation'' = Inr (PStr ''start'')"
    by simp
  have r: "get_list_of_servers_with_tag empty_ec2 ''Environment'' ''dev'' (PStr ''start'') initial =
       (Inr (PList []), ?s1)"
    by (simp add: get_list_of_servers_with_tag_def query_server_ids_eq example_defs)
  from no_servers_no_bulk_action [OF g r, of "()"] g r
  show ?thesis by simp
qed

text \<open>
  C7. For every event, provider and starting state, the calls an invocation adds hold at
  most one listing query and at most one bulk action, and never both a start and a stop.
\<close>

theorem at_most_one_query_and_one_bulk_action:
  "\<exists>new. calls (snd (lambda_handler ec2 EC2TAG_KEY EC2TAG_VALUE event context s)) = calls s @ new
      \<and> length (filter is_query new) \<le> 1
      \<and> length (filter is_bulk_action new) \<le> 1
      \<and> \<not> ((\<exists>x. StartInstances x \<in> set new) \<and> (\<exists>y. StopInstances y \<in> set new))"
  unfolding handler_calls
  by (cases ec2 EC2TAG_KEY EC2TAG_VALUE event s rule: try_new_calls) simp_all

theorem at_most_one_query_and_one_bulk_action_witness:
  "calls (snd (lambda_handler example_ec2 ''Environment'' ''dev''
       (PDict [(''operation'', PStr ''stop'')]) () initial))
     = [DescribeInstances
          [\<lparr>Name = ''tag:Environment'', Values = [''dev'']\<rparr>,
           \<lparr>Name = ''instance-state-name'', Values = [''running'']\<rparr>],
        StopInstances (PList [PStr ''i-2'', PStr ''i-1'', PStr ''i-2''])]
   \<and> (\<exists>new. calls (snd (lambda_handler example_ec2 ''Environment'' ''dev''
              (PDict [(''operation'', PStr ''stop'')]) () initial)) = calls initial @ new
      \<and> length (filter is_query new) \<le> 1
      \<and> length (filter is_bulk_action new) \<le> 1
      \<and> \<not> ((\<exists>x. StartInstances x \<in> set new) \<and> (\<exists>y. StopInstances y \<in> set new)))"
proof
  show "calls (snd (lambda_handler example_ec2 ''Environment'' ''dev''
       (PDict [(''operation'', PStr ''stop'')]) () initial))
     = [DescribeInstances
          [\<lparr>Name = ''tag:Environment'', Values = [''dev'']\<rparr>,
           \<lparr>Name = ''instance-state-name'', Values = [''running'']\<rparr>],
        StopInstances (PList [PStr ''i-2'', PStr ''i-1'', PStr ''i-2''])]"
    by (simp add: handler_calls try_stop example_defs)
next
  show "\<exists>new. calls (snd (lambda_handler example_ec2 ''Environment'' ''dev''
              (PDict [(''operation'', PStr ''stop'')]) () initial)) = calls initial @ new
      \<and> length (filter is_query new) \<le> 1
      \<and> length (filter is_bulk_action new) \<le> 1
      \<and> \<not> ((\<exists>x. StartInstances x \<in> set new) \<and> (\<exists>y. StopInstances y \<in> set new))"
    by (rule at_most_one_query_and_one_bulk_action)
qed

text \<open>
  C8. For an operation value other than \<^verbatim>\<open>"start"\<close> and \<^verbatim>\<open>"stop"\<close>, the resolver
  returns the string \<^verbatim>\<open>"Invalid Operation"\<close> without touching the state; the length of
  that string is 17, so the handler's test \<^verbatim>\<open>len(server_ids) > 0\<close> succeeds; the handler
  then prints \<^verbatim>\<open>Invalid Operation!\<close>, makes no provider call, and returns.
\<close>

theorem sentinel_is_nonempty_yet_no_call:
  assumes "map_of kvs ''operation'' = Some operation"
    and "operation \<noteq> PStr ''start''" and "operation \<noteq> PStr ''stop''"
  shows "get_list_of_servers_with_tag ec2 EC2TAG_KEY EC2TAG_VALUE operation s =
      (Inr (PStr ''Invalid Operation''), s)
    \<and> py_len (PStr ''Invalid Operation'') = Inr 17
    \<and> lambda_handler ec2 EC2TAG_KEY EC2TAG_VALUE (PDict kvs) context s =
      (Inr (PStr ''Function Executed!''),
       s\<lparr>stdout := stdout s @ [[Text ''Invalid Operation!'']]\<rparr>)"
  using assms by (simp add: resolver_invalid handler_eq try_invalid)

theorem sentinel_is_nonempty_yet_no_call_witness:
  "map_of [(''operation'', PList [])] ''operation'' = Some (PList [])
   \<and> PList [] \<noteq> PStr ''start'' \<and> PList [] \<noteq> PStr ''stop''
   \<and> get_list_of_servers_with_tag example_ec2 ''Environment'' ''dev'' (PList []) initial =
      (Inr (PStr ''Invalid Operation''), initial)
   \<and> lambda_handler example_ec2 ''Environment'' ''dev'' (PDict [(''operation'', PList [])])
        () initial =
      (Inr (PStr ''Function Executed!''),
       \<lparr>world = 0, calls = [], stdout = [[Text ''Invalid Operation!'']]\<rparr>)"
  using sentinel_is_nonempty_yet_no_call
    [of "[(''operation'', PList [])]" "PList []" example_ec2 "''Environment''" "''dev''"
        initial "()"]
  by (simp add: initial_def)

text \<open>
  C9. Whenever an invocation makes a bulk start or stop call, the calls it adds are the
  listing query and that call, and the call's identifier list is the list of the identifiers
  of the query's response in the order of the response: nothing is removed, repeated
  identifiers stay, and nothing is reordered.
\<close>

theorem bulk_action_ids_in_response_order:
  assumes "calls (snd (lambda_handler ec2 EC2TAG_KEY EC2TAG_VALUE event context s)) = calls s @ new"
    and "call \<in> set new" and "is_bulk_action call"
  shows "\<exists>Filters response w.
      new = [DescribeInstances Filters, call]
      \<and> describe_instances ec2 Filters (world s) = (Inr response, w)
      \<and> (call = StartInstances (PList (map PStr (ids_in_response_order response)))
         \<or> call = StopInstances (PList (map PStr (ids_in_response_order response))))"
  using assms unfolding handler_calls
  by (cases ec2 EC2TAG_KEY EC2TAG_VALUE event s rule: try_new_calls) auto

theorem bulk_action_ids_in_response_order_witness:
  "calls (snd (lambda_handler example_ec2 ''Environment'' ''dev''
       (PDict [(''operation'', PStr ''stop'')]) () initial))
     = calls initial
       @ [DescribeInstances
            [\<lparr>Name = ''tag:Environment'', Values = [''dev'']\<rparr>,
             \<lparr>Name = ''instance-state-name'', Values = [''running'']\<rparr>],
          StopInstances (PList [PStr ''i-2'', PStr ''i-1'', PStr ''i-2''])]
   \<and> is_bulk_action (StopInstances (PList [PStr ''i-2'', PStr ''i-1'', PStr ''i-2'']))
   \<and> (\<exists>Filters response w.
        [DescribeInstances
            [\<lparr>Name = ''tag:Environment'', Values = [''dev'']\<rparr>,
             \<lparr>Name = ''instance-state-name'', Values = [''running'']\<rparr>],
          StopInstances (PList [PStr ''i-2'', PStr ''i-1'', PStr ''i-2''])]
          = [DescribeInstances Filters,
             StopInstances (PList [PStr ''i-2'', PStr ''i-1'', PStr ''i-2''])]
        \<and> describe_instances example_ec2 Filters (world initial) = (Inr response, w)
        \<and> (StopInstances (PList [PStr ''i-2'', PStr ''i-1'', PStr ''i-2''])
              = StartInstances (PList (map PStr (ids_in_response_order response)))
           \<or> StopInstances (PList [PStr ''i-2'', PStr ''i-1'', PStr ''i-2''])
              = StopInstances (PList (map PStr (ids_in_response_order response)))))"
proof -
  let ?call = "StopInstances (PList [PStr ''i-2'', PStr ''i-1'', PStr ''i-2''])"
  let ?new = "[DescribeInstances
            [\<lparr>Name = ''tag:Environment'', Values = [''dev'']\<rparr>,
             \<lparr>Name = ''instance-state-name'', Values = [''running'']\<rparr>], ?call]"
  have run: "calls (snd (lambda_handler example_ec2 ''Environment'' ''dev''
       (PDict [(''operation'', PStr ''stop'')]) () initial)) = calls initial @ ?new"
    by (simp add: handler_calls try_stop example_defs)
  have mem: "?call \<in> set ?new" by simp
  have bulk: "is_bulk_action ?call" by simp
  note bulk_action_ids_in_response_order [OF run mem bulk]
  with run bulk show ?thesis by (intro conjI)
qed

text \<open>
  C10. With the same configuration, provider and starting state, two events that agree on the
  \<^verbatim>\<open>operation\<close> field (both lack it, or both hold the same value) lead to the same
  result and the same final state, whatever their other fields and whatever the two context
  arguments are.
\<close>

theorem only_operation_field_matters:
  assumes "map_of kvs1 ''operation'' = map_of kvs2 ''operation''"
  shows "lambda_handler ec2 EC2TAG_KEY EC2TAG_VALUE (PDict kvs1) context1 s =
         lambda_handler ec2 EC2TAG_KEY EC2TAG_VALUE (PDict kvs2) context2 s"
proof -
  have present: "py_in ''operation'' (PDict kvs1) = py_in ''operation'' (PDict kvs2)"
    by (simp add: assms)
  have field: "py_getitem (PDict kvs1) ''operation'' = py_getitem (PDict kvs2) ''operation''"
    by (simp add: assms)
  have "lambda_handler_try ec2 EC2TAG_KEY EC2TAG_VALUE (PDict kvs1) =
        lambda_handler_try ec2 EC2TAG_KEY EC2TAG_VALUE (PDict kvs2)"
    unfolding lambda_handler_try_def present field by (rule refl)
  then show ?thesis
    by (simp add: lambda_handler_def)
qed

theorem only_operation_field_matters_witness:
  "map_of [(''operation'', PStr ''stop''), (''force'', PBool True)] ''operation''
     = map_of [(''time'', PStr ''2024-01-01T19:00:00Z''), (''operation'', PStr ''stop'')] ''operation''
   \<and> lambda_handler example_ec2 ''Environment'' ''dev''
        (PDict [(''operation'', PStr ''stop''), (''force'', PBool True)]) () initial
     = lambda_handler example_ec2 ''Environment'' ''dev''
        (PDict [(''time'', PStr ''2024-01-01T19:00:00Z''), (''operation'', PStr ''stop'')])
        (PInt 3000) initial"
proof -
  have same: "map_of [(''operation'', PStr ''stop''), (''force'', PBool True)] ''operation''
     = map_of [(''time'', PStr ''2024-01-01T19:00:00Z''), (''operation'', PStr ''stop'')] ''operation''"
    by simp
  have "lambda_handler example_ec2 ''Environment'' ''dev''
        (PDict [(''operation'', PStr ''stop''), (''force'', PBool True)]) () initial
     = lambda_handler example_ec2 ''Environment'' ''dev''
        (PDict [(''time'', PStr ''2024-01-01T19:00:00Z''), (''operation'', PStr ''stop'')])
        (PInt 3000) initial"
    by (rule only_operation_field_matters [OF same])
  with same show ?thesis by (intro conjI)
qed

end
